theory Spec2Isabelle
  imports Complex_Main "HOL-Library.Word"
begin

section \<open>Values of the Python program\<close>

text \<open>
  A Python \<open>str\<close> is a sequence of Unicode code points.  The bundle handed over by the
  engine is arbitrary text, so it is kept as a list of code points; paths, option values
  and console messages are kept as HOL strings.
\<close>

type_synonym unicode = "nat list"
type_synonym byte = "8 word"

definition str :: "string \<Rightarrow> unicode" where
  "str s = map of_char s"

definition LF :: string where
  "LF = [CHR 0x0A]"

definition CRLF :: string where
  "CRLF = [CHR 0x0D, CHR 0x0A]"

text \<open>
  Instances of Python's \<open>Exception\<close> that the program can meet.  \<open>KeyboardInterrupt\<close> and
  \<open>SystemExit\<close> are not instances of \<open>Exception\<close> and are outside this model.
\<close>

datatype exn =
    OSError string
  | UnicodeEncodeError string nat
  | LookupError string
  | AssertionError
  | EngineError string

subsection \<open>Text encoding, as done by Python's text streams\<close>

definition utf8_encode_char :: "nat \<Rightarrow> byte list option" where
  "utf8_encode_char c =
     (if c < 0x80 then Some [of_nat c]
      else if c < 0x800 then
        Some [of_nat (0xC0 + c div 0x40), of_nat (0x80 + c mod 0x40)]
      else if 0xD800 \<le> c \<and> c \<le> 0xDFFF then None
      else if c < 0x10000 then
        Some [of_nat (0xE0 + c div 0x1000), of_nat (0x80 + c div 0x40 mod 0x40),
              of_nat (0x80 + c mod 0x40)]
      else if c < 0x110000 then
        Some [of_nat (0xF0 + c div 0x40000), of_nat (0x80 + c div 0x1000 mod 0x40),
              of_nat (0x80 + c div 0x40 mod 0x40), of_nat (0x80 + c mod 0x40)]
      else None)"

definition ascii_encode_char :: "nat \<Rightarrow> byte list option" where
  "ascii_encode_char c = (if c < 0x80 then Some [of_nat c] else None)"

definition latin1_encode_char :: "nat \<Rightarrow> byte list option" where
  "latin1_encode_char c = (if c < 0x100 then Some [of_nat c] else None)"

definition codec :: "string \<Rightarrow> (nat \<Rightarrow> byte list option) option" where
  "codec name =
     (if name = ''utf-8'' then Some utf8_encode_char
      else if name = ''ascii'' then Some ascii_encode_char
      else if name = ''latin-1'' then Some latin1_encode_char
      else None)"

text \<open>Strict encoding: the first code point the codec cannot encode raises.\<close>

fun encode_chars :: "string \<Rightarrow> (nat \<Rightarrow> byte list option) \<Rightarrow> unicode \<Rightarrow> exn + byte list" where
  "encode_chars name enc [] = Inr []"
| "encode_chars name enc (c # cs) =
     (case enc c of
        None \<Rightarrow> Inl (UnicodeEncodeError name c)
      | Some bs \<Rightarrow>
          (case encode_chars name enc cs of
             Inl e \<Rightarrow> Inl e
           | Inr rest \<Rightarrow> Inr (bs @ rest)))"

definition encode :: "string \<Rightarrow> unicode \<Rightarrow> exn + byte list" where
  "encode name t =
     (case codec name of
        None \<Rightarrow> Inl (LookupError name)
      | Some enc \<Rightarrow> encode_chars name enc t)"

text \<open>
  Encoding under an error handler (\<open>errors="replace"\<close>, \<open>"backslashreplace"\<close>, ...): the
  handler gives the bytes that stand for a code point the codec cannot encode.  No handler
  is \<open>errors="strict"\<close>.
\<close>

definition encode_char_handled ::
  "string \<Rightarrow> (nat \<Rightarrow> byte list option) \<Rightarrow> (nat \<Rightarrow> byte list) option \<Rightarrow> nat
     \<Rightarrow> exn + byte list" where
  "encode_char_handled name enc errors c =
     (case enc c of
        Some bs \<Rightarrow> Inr bs
      | None \<Rightarrow>
          (case errors of
             None \<Rightarrow> Inl (UnicodeEncodeError name c)
           | Some h \<Rightarrow> Inr (h c)))"

fun encode_chars_handled ::
  "string \<Rightarrow> (nat \<Rightarrow> byte list option) \<Rightarrow> (nat \<Rightarrow> byte list) option \<Rightarrow> unicode
     \<Rightarrow> exn + byte list" where
  "encode_chars_handled name enc errors [] = Inr []"
| "encode_chars_handled name enc errors (c # cs) =
     (case encode_char_handled name enc errors c of
        Inl e \<Rightarrow> Inl e
      | Inr bs \<Rightarrow>
          (case encode_chars_handled name enc errors cs of
             Inl e \<Rightarrow> Inl e
           | Inr rest \<Rightarrow> Inr (bs @ rest)))"

text \<open>
  Newline handling of a text stream on writing: with \<open>newline=None\<close> every \<open>\n\<close> becomes
  \<open>os.linesep\<close>; with \<open>newline=''\<close> or \<open>newline='\n'\<close> nothing is translated; any other
  value replaces every \<open>\n\<close>.
\<close>

definition translate_newlines :: "string option \<Rightarrow> string \<Rightarrow> unicode \<Rightarrow> unicode" where
  "translate_newlines newline linesep t =
     (let nl = (case newline of None \<Rightarrow> linesep | Some n \<Rightarrow> if n = [] then LF else n)
      in if nl = LF then t
         else concat (map (\<lambda>c. if c = 0x0A then str nl else [c]) t))"

definition text_encode :: "string \<Rightarrow> string option \<Rightarrow> string \<Rightarrow> unicode \<Rightarrow> exn + byte list" where
  "text_encode encoding newline linesep t = encode encoding (translate_newlines newline linesep t)"

section \<open>The application object and its process environment\<close>

text \<open>
  Modelled from the spec: a diagnostic record of the engine has a category, a message
  text and an optional source location (file, line, column).  The program only hands it
  to \<open>format_diagnostic\<close>.
\<close>

record diag =
  category :: string
  message :: string
  location :: "(string \<times> nat \<times> nat) option"

text \<open>
  The command line as parsed by \<open>_add_options\<close> (an \<open>argparse.Namespace\<close>);
  \<open>output_path\<close> is \<open>options.output\<close>.
\<close>

record options =
  module :: string
  output_path :: "string option"
  watch :: bool
  no_source_maps :: bool
  compress :: bool
  verbose :: bool
  output_format :: string
  bundle_format :: string
  type_check :: string

text \<open>
  Library functions the program calls and does not define: \<open>os.path.abspath\<close> (here a
  function of the working directory and the path) and the four formatters imported from
  \<open>frida_tools.cli_formatting\<close>.  They are parameters of the model.
\<close>

record platform =
  abspath :: "string \<Rightarrow> string \<Rightarrow> string"
  format_error :: "exn \<Rightarrow> string"
  format_diagnostic :: "diag \<Rightarrow> string \<Rightarrow> string"
  format_compiling :: "string \<Rightarrow> string \<Rightarrow> string"
  format_compiled :: "string \<Rightarrow> string \<Rightarrow> real \<Rightarrow> real \<Rightarrow> string"

text \<open>
  The zero-argument closures the program hands to \<open>self._reactor.schedule\<close>, one
  constructor per \<open>lambda\<close> of the source, carrying what the closure captured.
\<close>

datatype task =
    Fatal_error exn
  | Print_compiler_starting
  | Compiler_finished
  | Compiler_output unicode
  | Compiler_diagnostics "diag list"

text \<open>
  What the environment does to a file opened for writing: nothing unusual, \<open>open\<close>
  raises, or the write raises after some bytes of the data have reached the file (a
  failure of the flush on close counts as a failed write: both are inside the \<open>with\<close>
  block).
\<close>

datatype file_fault = NoFault | OpenFault exn | WriteFault nat exn

text \<open>An open text file: its path and the text layer's settings.\<close>

record handle =
  h_path :: string
  h_encoding :: string
  h_newline :: "string option"

text \<open>
  What reaches standard output, in order: a message given to \<open>self._print\<close>, or the bytes
  of a \<open>sys.stdout.write\<close>.
\<close>

datatype console_item = Printed string | Written "byte list"

text \<open>
  The state: the fields \<open>self._module\<close> ... \<open>self._compilation_started\<close> set by
  \<open>_initialize\<close>; the state inherited from \<open>ConsoleApplication\<close> (the reactor's queue of
  pending tasks and the requested exit status); whether the engine is watching; and the
  process environment (working directory, file system, standard output and its text
  settings, \<open>os.linesep\<close>).

  \<open>sys.stdout\<close> is the stream object that \<open>ConsoleApplication.__init__\<close> leaves installed.
  That code is not among the sources, so what the object does to a text before the text
  layer of the underlying stream gets it is a parameter, \<open>stdout_filter\<close>: a wrapper that
  removes terminal escape sequences when standard output is not a terminal is one such
  function, the identity is another.  The text layer has a codec (\<open>stdout_codec\<close>, named
  \<open>stdout_encoding\<close>), an error handler (\<open>stdout_errors\<close>) and a newline setting.
\<close>

record app =
  self_module :: string
  self_output :: "string option"
  self_mode :: string
  self_verbose :: bool
  self_compiler_options :: "(string \<times> string) list"
  self_compilation_started :: "real option"
  self_reactor :: "task list"
  self_exit_status :: "int option"
  watching :: bool
  cwd :: string
  files :: "string \<rightharpoonup> byte list"
  open_files :: "handle list"
  faults :: "string \<Rightarrow> file_fault"
  stdout :: "console_item list"
  stdout_filter :: "unicode \<Rightarrow> unicode"
  stdout_encoding :: string
  stdout_codec :: "nat \<Rightarrow> byte list option"
  stdout_errors :: "(nat \<Rightarrow> byte list) option"
  stdout_newline :: "string option"
  linesep :: string

subsection \<open>Inherited operations\<close>

text \<open>
  Modelled from the spec: \<open>ConsoleApplication\<close> and its reactor are not among the sources.
  \<open>schedule(task)\<close> enqueues a deferred action and returns immediately; tasks run in FIFO
  order.
\<close>

definition schedule :: "task \<Rightarrow> app \<Rightarrow> app" where
  "schedule t s = s\<lparr>self_reactor := self_reactor s @ [t]\<rparr>"

text \<open>
  Modelled from the spec: \<open>_print\<close> prints a message on the console.
\<close>

definition self_print :: "string \<Rightarrow> app \<Rightarrow> app" where
  "self_print msg s = s\<lparr>stdout := stdout s @ [Printed msg]\<rparr>"

text \<open>
  Modelled from the spec: \<open>_exit(code)\<close> sets the process's eventual exit code and asks the
  reactor to stop.
\<close>

definition self_exit :: "int \<Rightarrow> app \<Rightarrow> app" where
  "self_exit code s = s\<lparr>self_exit_status := Some code\<rparr>"

subsection \<open>Python's file and stream operations\<close>

text \<open>
  \<open>sys.stdout.write(t)\<close>: the installed stream object filters the text, then the text
  layer of standard output translates newlines and encodes, or raises.
\<close>

definition stdout_encode :: "app \<Rightarrow> unicode \<Rightarrow> exn + byte list" where
  "stdout_encode s t =
     encode_chars_handled (stdout_encoding s) (stdout_codec s) (stdout_errors s)
       (translate_newlines (stdout_newline s) (linesep s) (stdout_filter s t))"

definition stdout_write :: "unicode \<Rightarrow> app \<Rightarrow> exn option \<times> app" where
  "stdout_write t s =
     (case stdout_encode s t of
        Inl e \<Rightarrow> (Some e, s)
      | Inr bs \<Rightarrow> (None, s\<lparr>stdout := stdout s @ [Written bs]\<rparr>))"

text \<open>
  \<open>open(path, "w", encoding=enc, newline=nl)\<close>: raises and changes nothing, or creates
  the file or truncates it to length zero and returns a handle.
\<close>

definition open_w :: "string \<Rightarrow> string \<Rightarrow> string option \<Rightarrow> app \<Rightarrow> (exn + handle) \<times> app" where
  "open_w path enc nl s =
     (case faults s path of
        OpenFault e \<Rightarrow> (Inl e, s)
      | _ \<Rightarrow>
          (let h = \<lparr>h_path = path, h_encoding = enc, h_newline = nl\<rparr>
           in (Inr h, s\<lparr>files := (files s)(path \<mapsto> []), open_files := h # open_files s\<rparr>)))"

text \<open>
  \<open>f.write(t)\<close>: the text is translated and encoded as a whole (an encoding error leaves
  the file as it is), then appended to the file; a write fault lets only the first
  \<open>n\<close> bytes through.
\<close>

definition handle_write :: "handle \<Rightarrow> unicode \<Rightarrow> app \<Rightarrow> exn option \<times> app" where
  "handle_write h t s =
     (case text_encode (h_encoding h) (h_newline h) (linesep s) t of
        Inl e \<Rightarrow> (Some e, s)
      | Inr bs \<Rightarrow>
          (let old = (case files s (h_path h) of None \<Rightarrow> [] | Some c \<Rightarrow> c)
           in case faults s (h_path h) of
                WriteFault n e \<Rightarrow> (Some e, s\<lparr>files := (files s)(h_path h \<mapsto> old @ take n bs)\<rparr>)
              | _ \<Rightarrow> (None, s\<lparr>files := (files s)(h_path h \<mapsto> old @ bs)\<rparr>)))"

definition handle_close :: "handle \<Rightarrow> app \<Rightarrow> app" where
  "handle_close h s = s\<lparr>open_files := remove1 h (open_files s)\<rparr>"

section \<open>CompilerApplication\<close>

text \<open>\<open>_initialize\<close>, lines 47 to 58 and 77.\<close>

definition self_initialize :: "platform \<Rightarrow> options \<Rightarrow> app \<Rightarrow> app" where
  "self_initialize P opts s =
     (let m = (if watch opts then ''watch'' else ''build'')
      in s\<lparr>self_module := abspath P (cwd s) (module opts),
           self_output := output_path opts,
           self_mode := m,
           self_verbose := (m = ''watch'' \<or> verbose opts),
           self_compiler_options :=
             [(''project_root'', cwd s),
              (''output_format'', output_format opts),
              (''bundle_format'', bundle_format opts),
              (''type_check'', type_check opts),
              (''source_maps'', if no_source_maps opts then ''omitted'' else ''included''),
              (''compression'', if compress opts then ''terser'' else ''none'')],
           self_compilation_started := None\<rparr>)"

text \<open>\<open>_on_fatal_error\<close>.\<close>

definition self_on_fatal_error :: "platform \<Rightarrow> exn \<Rightarrow> app \<Rightarrow> app" where
  "self_on_fatal_error P error s = self_exit 1 (self_print (format_error P error) s)"

text \<open>\<open>_on_compiler_starting\<close>; \<open>now\<close> is what \<open>timer()\<close> returns.\<close>

definition self_on_compiler_starting :: "real \<Rightarrow> app \<Rightarrow> app" where
  "self_on_compiler_starting now s =
     (let s1 = s\<lparr>self_compilation_started := Some now\<rparr>
      in if self_verbose s1 then schedule Print_compiler_starting s1 else s1)"

text \<open>\<open>_print_compiler_starting\<close>.\<close>

definition self_print_compiler_starting :: "platform \<Rightarrow> app \<Rightarrow> exn option \<times> app" where
  "self_print_compiler_starting P s =
     (if self_mode s = ''watch'' then
        (case stdout_write (str [CHR 0x1B, CHR ''c'']) s of
           (Some e, s1) \<Rightarrow> (Some e, s1)
         | (None, s1) \<Rightarrow> (None, self_print (format_compiling P (self_module s1) (cwd s1)) s1))
      else (None, self_print (format_compiling P (self_module s) (cwd s)) s))"

text \<open>\<open>_on_compiler_finished\<close>; \<open>time_finished\<close> is what \<open>timer()\<close> returns.\<close>

definition self_on_compiler_finished :: "platform \<Rightarrow> real \<Rightarrow> app \<Rightarrow> exn option \<times> app" where
  "self_on_compiler_finished P time_finished s =
     (if self_verbose s then
        (case self_compilation_started s of
           None \<Rightarrow> (Some AssertionError, s)
         | Some t0 \<Rightarrow>
             (None, self_print (format_compiled P (self_module s) (cwd s) t0 time_finished) s))
      else (None, s))"

text \<open>The \<open>with\<close> block of \<open>_on_compiler_output\<close>: the handle is closed however the body ends.\<close>

definition write_output_file :: "string \<Rightarrow> unicode \<Rightarrow> app \<Rightarrow> exn option \<times> app" where
  "write_output_file path bundle s =
     (case open_w path ''utf-8'' (Some LF) s of
        (Inl e, s1) \<Rightarrow> (Some e, s1)
      | (Inr f, s1) \<Rightarrow>
          (case handle_write f bundle s1 of (r, s2) \<Rightarrow> (r, handle_close f s2)))"

text \<open>\<open>_on_compiler_output\<close>.\<close>

definition self_on_compiler_output :: "platform \<Rightarrow> unicode \<Rightarrow> app \<Rightarrow> exn option \<times> app" where
  "self_on_compiler_output P bundle s =
     (case self_output s of
        Some path \<Rightarrow>
          (case write_output_file path bundle s of
             (Some e, s1) \<Rightarrow> (None, self_on_fatal_error P e s1)
           | (None, s1) \<Rightarrow> (None, s1))
      | None \<Rightarrow> stdout_write bundle s)"

text \<open>\<open>_on_compiler_diagnostics\<close>.\<close>

definition self_on_compiler_diagnostics :: "platform \<Rightarrow> diag list \<Rightarrow> app \<Rightarrow> app" where
  "self_on_compiler_diagnostics P diagnostics s =
     (let d = cwd s
      in foldl (\<lambda>s' diag. self_print (format_diagnostic P diag d) s') s diagnostics)"

text \<open>The three closures \<open>_initialize\<close> defines (lines 63 to 70).\<close>

definition on_compiler_finished :: "app \<Rightarrow> app" where
  "on_compiler_finished s = schedule Compiler_finished s"

definition on_compiler_output :: "unicode \<Rightarrow> app \<Rightarrow> app" where
  "on_compiler_output bundle s = schedule (Compiler_output bundle) s"

definition on_compiler_diagnostics :: "diag list \<Rightarrow> app \<Rightarrow> app" where
  "on_compiler_diagnostics diagnostics s = schedule (Compiler_diagnostics diagnostics) s"

text \<open>
  The engine's four signals, and what the engine runs when it emits one: the callback
  that \<open>_initialize\<close> registered for it with \<open>compiler.on\<close> (lines 72 to 75).
\<close>

datatype event = Starting | Finished | Output unicode | Diagnostics "diag list"

fun emit :: "event \<Rightarrow> real \<Rightarrow> app \<Rightarrow> app" where
  "emit Starting now s = self_on_compiler_starting now s"
| "emit Finished now s = on_compiler_finished s"
| "emit (Output bundle) now s = on_compiler_output bundle s"
| "emit (Diagnostics diagnostics) now s = on_compiler_diagnostics diagnostics s"

text \<open>
  A call of \<open>compiler.build\<close> or \<open>compiler.watch\<close>, seen from the program: the signals the
  engine emits while the call runs (each with the clock reading at that moment), and
  whether the call returns or raises.
\<close>

datatype outcome = Returns | Raises exn

record engine_call =
  emitted :: "(event \<times> real) list"
  result :: outcome

definition deliver :: "(event \<times> real) list \<Rightarrow> app \<Rightarrow> app" where
  "deliver evs s = foldl (\<lambda>s' (e, now). emit e now s') s evs"

text \<open>
  \<open>_start\<close>.  The signals emitted during the call reach the callbacks before the call
  returns or raises.  A call of \<open>compiler.watch\<close> that returns leaves the engine watching.
\<close>

definition self_start :: "engine_call \<Rightarrow> app \<Rightarrow> app" where
  "self_start call s =
     (let s1 = deliver (emitted call) s
      in if self_mode s1 = ''build'' then
           (case result call of
              Returns \<Rightarrow> self_exit 0 s1
            | Raises error \<Rightarrow> schedule (Fatal_error error) s1)
         else
           (case result call of
              Returns \<Rightarrow> s1\<lparr>watching := True\<rparr>
            | Raises error \<Rightarrow> schedule (Fatal_error error) s1))"

text \<open>Running a scheduled closure; \<open>now\<close> is the clock reading while it runs.\<close>

fun run_task :: "platform \<Rightarrow> real \<Rightarrow> task \<Rightarrow> app \<Rightarrow> exn option \<times> app" where
  "run_task P now (Fatal_error error) s = (None, self_on_fatal_error P error s)"
| "run_task P now Print_compiler_starting s = self_print_compiler_starting P s"
| "run_task P now Compiler_finished s = self_on_compiler_finished P now s"
| "run_task P now (Compiler_output bundle) s = self_on_compiler_output P bundle s"
| "run_task P now (Compiler_diagnostics diagnostics) s =
     (None, self_on_compiler_diagnostics P diagnostics s)"

text \<open>
  Modelled from the spec: the reactor's run loop dequeues the oldest pending task and
  executes it.  A run of the program is a sequence of actions: the engine emits a signal,
  or the reactor runs its next task.  The run ends at the first exception that escapes a
  task.
\<close>

datatype action = Emit event real | Run real

fun step :: "platform \<Rightarrow> action \<Rightarrow> app \<Rightarrow> exn option \<times> app" where
  "step P (Emit e now) s = (None, emit e now s)"
| "step P (Run now) s =
     (case self_reactor s of
        [] \<Rightarrow> (None, s)
      | t # ts \<Rightarrow> run_task P now t (s\<lparr>self_reactor := ts\<rparr>))"

fun exec :: "platform \<Rightarrow> action list \<Rightarrow> app \<Rightarrow> exn option \<times> app" where
  "exec P [] s = (None, s)"
| "exec P (a # as) s =
     (case step P a s of
        (Some e, s1) \<Rightarrow> (Some e, s1)
      | (None, s1) \<Rightarrow> exec P as s1)"


section \<open>Example environments\<close>

fun describe :: "exn \<Rightarrow> string" where
  "describe (OSError m) = ''OSError: '' @ m"
| "describe (UnicodeEncodeError c n) = ''UnicodeEncodeError: '' @ c"
| "describe (LookupError c) = ''LookupError: '' @ c"
| "describe AssertionError = ''AssertionError''"
| "describe (EngineError m) = m"

definition example_platform :: platform where
  "example_platform =
     \<lparr>abspath = (\<lambda>d p. d @ ''/'' @ p),
      format_error = (\<lambda>e. ''Failed: '' @ describe e),
      format_diagnostic = (\<lambda>d base. base @ '': '' @ category d @ '': '' @ message d),
      format_compiling = (\<lambda>m base. ''Compiling '' @ m),
      format_compiled = (\<lambda>m base t0 t1. ''Compiled '' @ m)\<rparr>"

text \<open>
  A fresh process on a POSIX system with a UTF-8 locale, before \<open>_initialize\<close>; standard
  output is a terminal, to which the installed stream object passes every text as it is.
\<close>

definition posix_process :: app where
  "posix_process =
     \<lparr>self_module = [], self_output = None, self_mode = [], self_verbose = False,
      self_compiler_options = [], self_compilation_started = None,
      self_reactor = [], self_exit_status = None, watching = False,
      cwd = ''/work'', files = Map.empty, open_files = [], faults = (\<lambda>p. NoFault),
      stdout = [], stdout_filter = (\<lambda>t. t), stdout_encoding = ''utf-8'',
      stdout_codec = utf8_encode_char, stdout_errors = None,
      stdout_newline = Some LF, linesep = LF\<rparr>"

text \<open>The same on Windows: standard output translates \<open>\n\<close> to \<open>\r\n\<close>.\<close>

definition windows_process :: app where
  "windows_process = posix_process\<lparr>stdout_newline := None, linesep := CRLF\<rparr>"

definition example_options :: options where
  "example_options =
     \<lparr>module = ''app.ts'', output_path = None, watch = False, no_source_maps = False,
      compress = False, verbose = False, output_format = ''unescaped'',
      bundle_format = ''esm'', type_check = ''full''\<rparr>"

text \<open>\<open>frida-compile app.ts\<close>, \<open>frida-compile app.ts -o out.js\<close> and \<open>frida-compile app.ts -w\<close>.\<close>

definition build_app :: "app \<Rightarrow> app" where
  "build_app env = self_initialize example_platform example_options env"

definition build_to_file :: "app \<Rightarrow> app" where
  "build_to_file env =
     self_initialize example_platform (example_options\<lparr>output_path := Some ''out.js''\<rparr>) env"

definition watch_app :: "app \<Rightarrow> app" where
  "watch_app env = self_initialize example_platform (example_options\<lparr>watch := True\<rparr>) env"

text \<open>Environments in which writing fails.\<close>

definition read_only_disk :: app where
  "read_only_disk = posix_process\<lparr>faults := (\<lambda>p. OpenFault (OSError ''Permission denied''))\<rparr>"

definition full_disk :: app where
  "full_disk =
     posix_process\<lparr>files := [''out.js'' \<mapsto> [1, 2, 3]],
                    faults := (\<lambda>p. WriteFault 0 (OSError ''No space left on device''))\<rparr>"

definition ascii_console :: app where
  "ascii_console =
     posix_process\<lparr>stdout_encoding := ''ascii'', stdout_codec := ascii_encode_char\<rparr>"



section \<open>Auxiliary facts\<close>

lemmas handler_defs = self_on_compiler_starting_def on_compiler_finished_def
  on_compiler_output_def on_compiler_diagnostics_def schedule_def

lemmas fatal_defs = self_on_fatal_error_def self_exit_def self_print_def

lemmas encode_defs = text_encode_def translate_newlines_def encode_def codec_def
  utf8_encode_char_def ascii_encode_char_def latin1_encode_char_def str_def LF_def

lemmas example_defs = self_initialize_def example_options_def example_platform_def
  posix_process_def

lemma diagnostics_fold:
  "foldl (\<lambda>s' d. self_print (format_diagnostic P d c) s') s ds =
     s\<lparr>stdout := stdout s @ map (\<lambda>d. Printed (format_diagnostic P d c)) ds\<rparr>"
  by (induction ds arbitrary: s) (simp_all add: self_print_def)

lemma diagnostics_eq:
  "self_on_compiler_diagnostics P ds s =
     s\<lparr>stdout := stdout s @ map (\<lambda>d. Printed (format_diagnostic P d (cwd s))) ds\<rparr>"
  by (simp add: self_on_compiler_diagnostics_def Let_def diagnostics_fold)

text \<open>The \<open>with\<close> block, case by case: what it raises and what it leaves behind.\<close>

lemma write_output_file_cases:
  "write_output_file path bundle s =
     (case faults s path of
        OpenFault e \<Rightarrow> (Some e, s)
      | WriteFault n e \<Rightarrow>
          (case encode ''utf-8'' bundle of
             Inl e' \<Rightarrow> (Some e', s\<lparr>files := (files s)(path \<mapsto> [])\<rparr>)
           | Inr bs \<Rightarrow> (Some e, s\<lparr>files := (files s)(path \<mapsto> take n bs)\<rparr>))
      | NoFault \<Rightarrow>
          (case encode ''utf-8'' bundle of
             Inl e' \<Rightarrow> (Some e', s\<lparr>files := (files s)(path \<mapsto> [])\<rparr>)
           | Inr bs \<Rightarrow> (None, s\<lparr>files := (files s)(path \<mapsto> bs)\<rparr>)))"
  by (simp add: write_output_file_def open_w_def handle_write_def handle_close_def
      text_encode_def translate_newlines_def Let_def
      split: file_fault.splits sum.splits)

text \<open>The engine's callbacks leave the exit status, the mode and the engine alone.\<close>

lemma emit_exit_status: "self_exit_status (emit e now s) = self_exit_status s"
  by (cases e) (simp_all add: handler_defs Let_def)

lemma emit_watching: "watching (emit e now s) = watching s"
  by (cases e) (simp_all add: handler_defs Let_def)

lemma emit_mode: "self_mode (emit e now s) = self_mode s"
  by (cases e) (simp_all add: handler_defs Let_def)

lemma deliver_exit_status: "self_exit_status (deliver evs s) = self_exit_status s"
  unfolding deliver_def
  by (induction evs arbitrary: s) (simp_all add: split_def emit_exit_status)

lemma deliver_watching: "watching (deliver evs s) = watching s"
  unfolding deliver_def
  by (induction evs arbitrary: s) (simp_all add: split_def emit_watching)

lemma deliver_mode: "self_mode (deliver evs s) = self_mode s"
  unfolding deliver_def
  by (induction evs arbitrary: s) (simp_all add: split_def emit_mode)

text \<open>No handler requests an exit code other than 1.\<close>

lemma output_exit_status:
  "self_exit_status (snd (self_on_compiler_output P bundle s)) = self_exit_status s
   \<or> self_exit_status (snd (self_on_compiler_output P bundle s)) = Some 1"
  by (auto simp: self_on_compiler_output_def write_output_file_cases stdout_write_def fatal_defs
      split: option.splits file_fault.splits sum.splits)

lemma run_task_exit_status:
  "self_exit_status (snd (run_task P now t s)) = self_exit_status s
   \<or> self_exit_status (snd (run_task P now t s)) = Some 1"
proof (cases t)
  case (Compiler_output b)
  then show ?thesis using output_exit_status [of P b s] by simp
qed (auto simp: fatal_defs self_print_compiler_starting_def stdout_write_def
      self_on_compiler_finished_def diagnostics_eq Let_def split: option.splits sum.splits)

lemma step_exit_one:
  assumes one: "self_exit_status s = Some 1"
  shows "self_exit_status (snd (step P a s)) = Some 1"
proof (cases a)
  case (Emit e now)
  with one show ?thesis by (simp add: emit_exit_status)
next
  case (Run now)
  show ?thesis
  proof (cases "self_reactor s")
    case Nil
    then show ?thesis using Run one by simp
  next
    case (Cons t ts)
    then show ?thesis
      using Run one run_task_exit_status [of P now t "s\<lparr>self_reactor := ts\<rparr>"] by auto
  qed
qed

lemma exec_exit_one:
  "self_exit_status s = Some 1 \<Longrightarrow> self_exit_status (snd (exec P acts s)) = Some 1"
proof (induction acts arbitrary: s)
  case Nil
  then show ?case by simp
next
  case (Cons a acts)
  obtain r s1 where st: "step P a s = (r, s1)" by (cases "step P a s")
  with Cons.prems step_exit_one [of s P a] have "self_exit_status s1 = Some 1" by simp
  with Cons.IH st show ?case by (cases r) simp_all
qed

text \<open>Once recorded, the start timestamp is never cleared.\<close>

lemma started_emit:
  "self_compilation_started s \<noteq> None \<Longrightarrow> self_compilation_started (emit e now s) \<noteq> None"
  by (cases e) (simp_all add: handler_defs Let_def)

lemma started_output:
  "self_compilation_started (snd (self_on_compiler_output P bundle s)) = self_compilation_started s"
  by (auto simp: self_on_compiler_output_def write_output_file_cases stdout_write_def fatal_defs
      split: option.splits file_fault.splits sum.splits)

lemma started_run_task:
  "self_compilation_started (snd (run_task P now t s)) = self_compilation_started s"
proof (cases t)
  case (Compiler_output b)
  then show ?thesis using started_output [of P b s] by simp
qed (auto simp: fatal_defs self_print_compiler_starting_def stdout_write_def
      self_on_compiler_finished_def diagnostics_eq Let_def split: option.splits sum.splits)

lemma started_step:
  assumes st: "self_compilation_started s \<noteq> None"
  shows "self_compilation_started (snd (step P a s)) \<noteq> None"
proof (cases a)
  case (Emit e now)
  then show ?thesis using st started_emit [of s e now] by simp
next
  case (Run now)
  then show ?thesis using st
    by (cases "self_reactor s") (simp_all add: started_run_task)
qed

lemma started_exec:
  "self_compilation_started s \<noteq> None \<Longrightarrow> self_compilation_started (snd (exec P acts s)) \<noteq> None"
proof (induction acts arbitrary: s)
  case Nil
  then show ?case by simp
next
  case (Cons a acts)
  obtain r s1 where st: "step P a s = (r, s1)" by (cases "step P a s")
  with Cons.prems started_step [of s P a] have "self_compilation_started s1 \<noteq> None" by simp
  with Cons.IH st show ?case by (cases r) simp_all
qed

lemma starting_sets_started:
  "self_compilation_started (self_on_compiler_starting now s) = Some now"
  by (simp add: handler_defs Let_def)

lemma started_after_starting:
  "exec P acts s = (None, s') \<Longrightarrow> Emit Starting t \<in> set acts \<Longrightarrow>
     self_compilation_started s' \<noteq> None"
proof (induction acts arbitrary: s)
  case Nil
  then show ?case by simp
next
  case (Cons a acts)
  obtain r s1 where st: "step P a s = (r, s1)" by (cases "step P a s")
  with Cons.prems(1) have r: "r = None" and ex: "exec P acts s1 = (None, s')"
    by (cases r; simp)+
  show ?case
  proof (cases "a = Emit Starting t")
    case True
    with st have "self_compilation_started s1 = Some t" by (auto simp: starting_sets_started)
    then have "self_compilation_started (snd (exec P acts s1)) \<noteq> None"
      by (intro started_exec) simp
    with ex show ?thesis by simp
  next
    case False
    with Cons.prems(2) have "Emit Starting t \<in> set acts" by simp
    with Cons.IH ex show ?thesis by blast
  qed
qed

text \<open>Encoding raises nothing but encoding errors, so no write fails an assertion.\<close>

lemma encode_chars_error:
  "encode_chars name enc t = Inl e \<Longrightarrow> e \<noteq> AssertionError"
  by (induction t arbitrary: e) (auto split: option.splits sum.splits)

lemma encode_chars_handled_error:
  "encode_chars_handled name enc errors t = Inl e \<Longrightarrow> e \<noteq> AssertionError"
  by (induction t arbitrary: e)
    (auto simp: encode_char_handled_def split: option.splits sum.splits)

lemma stdout_write_error:
  "fst (stdout_write t s) \<noteq> Some AssertionError"
  by (auto simp: stdout_write_def stdout_encode_def encode_chars_handled_error split: sum.splits)

lemma output_no_assertion:
  "fst (self_on_compiler_output P bundle s) \<noteq> Some AssertionError"
  using stdout_write_error [of "bundle" s]
  by (auto simp: self_on_compiler_output_def split: option.splits prod.splits)

lemma run_task_no_assertion:
  assumes "self_compilation_started s \<noteq> None"
  shows "fst (run_task P now t s) \<noteq> Some AssertionError"
proof (cases t)
  case Print_compiler_starting
  then show ?thesis
    using stdout_write_error [of "str [CHR 0x1B, CHR ''c'']" s]
    by (auto simp: self_print_compiler_starting_def split: prod.splits option.splits)
next
  case Compiler_finished
  then show ?thesis
    using assms by (auto simp: self_on_compiler_finished_def)
next
  case (Compiler_output b)
  then show ?thesis using output_no_assertion [of P b s] by simp
qed simp_all

lemma step_no_assertion:
  assumes "self_compilation_started s \<noteq> None"
  shows "fst (step P a s) \<noteq> Some AssertionError"
proof (cases a)
  case (Emit e now)
  then show ?thesis by simp
next
  case (Run now)
  show ?thesis
  proof (cases "self_reactor s")
    case Nil
    with Run show ?thesis by simp
  next
    case (Cons t ts)
    with Run assms run_task_no_assertion [of "s\<lparr>self_reactor := ts\<rparr>" P now t]
    show ?thesis by simp
  qed
qed

lemma exec_no_assertion:
  "self_compilation_started s \<noteq> None \<Longrightarrow> fst (exec P acts s) \<noteq> Some AssertionError"
proof (induction acts arbitrary: s)
  case Nil
  then show ?case by simp
next
  case (Cons a acts)
  obtain r s1 where st: "step P a s = (r, s1)" by (cases "step P a s")
  from Cons.prems started_step [of s P a] st
  have s1: "self_compilation_started s1 \<noteq> None" by simp
  from Cons.prems step_no_assertion [of s P a] st
  have r: "r \<noteq> Some AssertionError" by simp
  show ?case
  proof (cases r)
    case None
    with st Cons.IH [OF s1] show ?thesis by simp
  next
    case (Some e)
    with st r show ?thesis by simp
  qed
qed



section \<open>The claims\<close>

text \<open>
  C1.  The specification states that for every handling of an "output" event a delivery
  error is caught and routed to the fatal-error path, which prints the formatted error
  and terminates with exit code 1, and that a write failure to a configured output file
  never results in exit code 0.

  The \<open>try\<close> of \<open>_on_compiler_output\<close> encloses the file branch only.  What holds: when a
  file destination is configured and opening or writing it raises, the handler lets no
  exception escape, prints the formatted error and requests exit code 1, and whatever the
  engine emits and the reactor runs afterwards, the requested exit code stays 1.
\<close>

theorem file_delivery_error_is_fatal:
  assumes "self_output s = Some path"
      and "write_output_file path bundle s = (Some e, s1)"
  shows "self_on_compiler_output P bundle s =
           (None, s1\<lparr>stdout := stdout s1 @ [Printed (format_error P e)],
                     self_exit_status := Some 1\<rparr>)
       \<and> self_exit_status (snd (exec P acts (snd (self_on_compiler_output P bundle s)))) = Some 1"
proof -
  have "self_on_compiler_output P bundle s =
          (None, s1\<lparr>stdout := stdout s1 @ [Printed (format_error P e)],
                    self_exit_status := Some 1\<rparr>)"
    using assms by (simp add: self_on_compiler_output_def fatal_defs)
  then show ?thesis by (simp add: exec_exit_one)
qed

text \<open>
  \<open>frida-compile app.ts -o out.js\<close> where \<open>out.js\<close> cannot be opened: the build has
  returned and exit code 0 is requested when the reactor runs the output task; the task
  prints the error and the requested exit code is 1, also after the remaining task.
\<close>

theorem file_delivery_error_is_fatal_witness:
  "self_on_compiler_output example_platform (str ''x'') (build_to_file read_only_disk) =
     (None, build_to_file read_only_disk
        \<lparr>stdout := [Printed ''Failed: OSError: Permission denied''], self_exit_status := Some 1\<rparr>)
   \<and> self_exit_status
        (self_start \<lparr>emitted = [(Output (str ''x''), 2), (Finished, 3)], result = Returns\<rparr>
           (build_to_file read_only_disk)) = Some 0
   \<and> self_exit_status
        (snd (exec example_platform [Run 4, Run 5]
           (self_start \<lparr>emitted = [(Output (str ''x''), 2), (Finished, 3)], result = Returns\<rparr>
              (build_to_file read_only_disk)))) = Some 1"
proof -
  let ?s = "build_to_file read_only_disk"
  let ?q = "?s\<lparr>self_exit_status := Some 0, self_reactor := [Compiler_finished]\<rparr>"
  have out: "self_output ?s = Some ''out.js''" "self_output ?q = Some ''out.js''"
    by (simp_all add: build_to_file_def example_defs)
  have err: "faults ?s ''out.js'' = OpenFault (OSError ''Permission denied'')"
    by (simp add: build_to_file_def read_only_disk_def example_defs)
  have w1: "write_output_file ''out.js'' (str ''x'') ?s = (Some (OSError ''Permission denied''), ?s)"
    by (simp add: write_output_file_cases err)
  have w2: "write_output_file ''out.js'' (str ''x'') ?q = (Some (OSError ''Permission denied''), ?q)"
    using err by (simp add: write_output_file_cases)
  have st: "self_start \<lparr>emitted = [(Output (str ''x''), 2), (Finished, 3)], result = Returns\<rparr> ?s
              = ?s\<lparr>self_reactor := [Compiler_output (str ''x''), Compiler_finished],
                    self_exit_status := Some 0\<rparr>"
    by (simp add: self_start_def deliver_def handler_defs self_exit_def Let_def
        build_to_file_def read_only_disk_def example_defs)
  have fmt: "format_error example_platform (OSError ''Permission denied'') =
               ''Failed: OSError: Permission denied''"
    by (simp add: example_platform_def)
  have emp: "stdout ?s = []"
    by (simp add: build_to_file_def read_only_disk_def example_defs)
  note a = file_delivery_error_is_fatal [OF out(1) w1, of example_platform "[]"]
  note b = file_delivery_error_is_fatal [OF out(2) w2, of example_platform "[Run 5]"]
  from a have c1: "self_on_compiler_output example_platform (str ''x'') ?s =
     (None, ?s\<lparr>stdout := [Printed ''Failed: OSError: Permission denied''],
               self_exit_status := Some 1\<rparr>)"
    by (simp add: fmt emp)
  have c2: "self_exit_status
        (self_start \<lparr>emitted = [(Output (str ''x''), 2), (Finished, 3)], result = Returns\<rparr> ?s)
        = Some 0"
    by (simp add: st)
  from b have o2: "self_on_compiler_output example_platform (str ''x'') ?q =
      (None, ?q\<lparr>stdout := stdout ?q @ [Printed (format_error example_platform
                                                 (OSError ''Permission denied''))],
                self_exit_status := Some 1\<rparr>)"
    by (rule conjunct1)
  from b have fin: "self_exit_status (snd (exec example_platform [Run 5]
      (snd (self_on_compiler_output example_platform (str ''x'') ?q)))) = Some 1"
    by (rule conjunct2)
  have run: "exec example_platform [Run 4, Run 5]
               (?s\<lparr>self_reactor := [Compiler_output (str ''x''), Compiler_finished],
                    self_exit_status := Some 0\<rparr>)
             = exec example_platform [Run 5]
                 (snd (self_on_compiler_output example_platform (str ''x'') ?q))"
    using o2 by simp
  have c3: "self_exit_status
        (snd (exec example_platform [Run 4, Run 5]
           (self_start \<lparr>emitted = [(Output (str ''x''), 2), (Finished, 3)], result = Returns\<rparr> ?s)))
        = Some 1"
    unfolding st run by (rule fin)
  from c1 c2 c3 show ?thesis by blast
qed

text \<open>
  With no file destination and a console that encodes as ASCII, the bundle made of the
  one code point U+00E9 cannot be written: the error leaves the handler, nothing is
  printed and no exit code is requested.
\<close>

theorem stdout_delivery_error_escapes:
  "self_output (build_app ascii_console) = None
   \<and> self_on_compiler_output example_platform [0xE9] (build_app ascii_console) =
       (Some (UnicodeEncodeError ''ascii'' 0xE9), build_app ascii_console)
   \<and> stdout (build_app ascii_console) = []
   \<and> self_exit_status (build_app ascii_console) = None"
  by (simp add: self_on_compiler_output_def stdout_write_def stdout_encode_def
      encode_char_handled_def encode_defs build_app_def ascii_console_def example_defs)




text \<open>
  C3.  The specification states that for each of the four signals the callback
  registered with the engine does no orchestration work itself and only enqueues a task,
  so that every mutation of the state (the start timestamp included) happens inside a
  reactor task.

  \<open>compiler.on("starting", self._on_compiler_starting)\<close> registers the method itself.
  What holds: the callbacks of "finished", "output" and "diagnostics" only enqueue one
  task; the callback of "starting" records the start timestamp at once and, when verbose,
  enqueues the task that prints the message.
\<close>

theorem callbacks_registered:
  "emit Finished now s = schedule Compiler_finished s
   \<and> emit (Output bundle) now s = schedule (Compiler_output bundle) s
   \<and> emit (Diagnostics ds) now s = schedule (Compiler_diagnostics ds) s
   \<and> emit Starting now s =
       (if self_verbose s
        then schedule Print_compiler_starting (s\<lparr>self_compilation_started := Some now\<rparr>)
        else s\<lparr>self_compilation_started := Some now\<rparr>)"
  by (simp add: handler_defs Let_def)

theorem callbacks_registered_witness:
  "self_reactor (emit Finished 3 (build_app posix_process)) = [Compiler_finished]
   \<and> self_reactor (emit (Output (str ''x'')) 2 (build_app posix_process)) = [Compiler_output (str ''x'')]
   \<and> self_reactor (emit Starting 1 (watch_app posix_process)) = [Print_compiler_starting]
   \<and> self_compilation_started (emit Starting 1 (watch_app posix_process)) = Some 1"
  using callbacks_registered [of 3 "build_app posix_process" "str ''x''" "[]"]
    callbacks_registered [of 2 "build_app posix_process" "str ''x''" "[]"]
    callbacks_registered [of 1 "watch_app posix_process" "str ''x''" "[]"]
  by (simp add: schedule_def build_app_def watch_app_def example_defs)

text \<open>
  In a build that is not verbose the "starting" callback enqueues nothing and changes the
  state itself.
\<close>

theorem starting_callback_mutates_state:
  "self_compilation_started (build_app posix_process) = None
   \<and> self_compilation_started (emit Starting 5 (build_app posix_process)) = Some 5
   \<and> self_reactor (emit Starting 5 (build_app posix_process)) = self_reactor (build_app posix_process)
   \<and> (\<forall>t. emit Starting 5 (build_app posix_process) \<noteq> schedule t (build_app posix_process))"
  by (simp add: handler_defs Let_def build_app_def example_defs)

text \<open>
  C4.  For every parsed configuration, verbose reporting is enabled whenever watch mode
  is selected, whatever the verbose flag; in build mode it is enabled exactly when the
  verbose flag was given.
\<close>

theorem verbose_policy:
  "(watch opts \<longrightarrow>
      self_mode (self_initialize P opts s) = ''watch'' \<and> self_verbose (self_initialize P opts s))
   \<and> (\<not> watch opts \<longrightarrow>
      self_mode (self_initialize P opts s) = ''build''
      \<and> self_verbose (self_initialize P opts s) = verbose opts)"
  by (simp add: self_initialize_def Let_def)

theorem verbose_policy_witness:
  "self_mode (watch_app posix_process) = ''watch''
   \<and> self_verbose (watch_app posix_process)
   \<and> self_mode (build_app posix_process) = ''build''
   \<and> \<not> self_verbose (build_app posix_process)
   \<and> self_verbose (self_initialize example_platform (example_options\<lparr>verbose := True\<rparr>) posix_process)"
  using verbose_policy [of "example_options\<lparr>watch := True\<rparr>" example_platform posix_process]
    verbose_policy [of example_options example_platform posix_process]
    verbose_policy [of "example_options\<lparr>verbose := True\<rparr>" example_platform posix_process]
  by (simp add: watch_app_def build_app_def example_options_def)

text \<open>
  C5.  In build mode and in watch mode, if the call into the engine raises, a fatal-error
  task is put on the reactor's queue; run, it prints the formatted error and requests
  exit code 1.  The call requests no exit code itself and the engine is not left
  watching.
\<close>

theorem start_failure_is_fatal:
  "result call = Raises e \<Longrightarrow>
     self_start call s = schedule (Fatal_error e) (deliver (emitted call) s)
   \<and> self_reactor (self_start call s) = self_reactor (deliver (emitted call) s) @ [Fatal_error e]
   \<and> self_exit_status (self_start call s) = self_exit_status s
   \<and> watching (self_start call s) = watching s
   \<and> run_task P now (Fatal_error e) s' =
        (None, s'\<lparr>stdout := stdout s' @ [Printed (format_error P e)],
                  self_exit_status := Some 1\<rparr>)"
  by (simp add: self_start_def Let_def schedule_def fatal_defs deliver_exit_status deliver_watching)

text \<open>\<open>frida-compile app.ts -w\<close> and \<open>frida-compile app.ts\<close> with a module the engine rejects.\<close>

theorem start_failure_is_fatal_witness:
  "self_reactor (self_start \<lparr>emitted = [], result = Raises (EngineError ''no such module'')\<rparr>
                   (watch_app posix_process)) = [Fatal_error (EngineError ''no such module'')]
   \<and> \<not> watching (self_start \<lparr>emitted = [], result = Raises (EngineError ''no such module'')\<rparr>
                   (watch_app posix_process))
   \<and> self_reactor (self_start \<lparr>emitted = [], result = Raises (EngineError ''no such module'')\<rparr>
                   (build_app posix_process)) = [Fatal_error (EngineError ''no such module'')]
   \<and> self_exit_status (self_start \<lparr>emitted = [], result = Raises (EngineError ''no such module'')\<rparr>
                   (build_app posix_process)) = None
   \<and> run_task example_platform 0 (Fatal_error (EngineError ''no such module'')) (build_app posix_process) =
       (None, build_app posix_process\<lparr>stdout := [Printed ''Failed: no such module''],
                                        self_exit_status := Some 1\<rparr>)"
proof -
  have h: "result \<lparr>emitted = [], result = Raises (EngineError ''no such module'')\<rparr>
             = Raises (EngineError ''no such module'')"
    by simp
  from start_failure_is_fatal [OF h, of "watch_app posix_process" example_platform 0
      "build_app posix_process"]
    start_failure_is_fatal [OF h, of "build_app posix_process" example_platform 0
      "build_app posix_process"]
  show ?thesis
    by (simp add: schedule_def deliver_def watch_app_def build_app_def example_defs)
qed

text \<open>
  C6.  In build mode, when the call of \<open>compiler.build\<close> returns, the program requests exit
  code 0.  The request is made by \<open>_start\<close> on the completion of the build: no signal of
  the engine and not the handler of "finished" changes the requested exit code.
\<close>

theorem build_completion_exits_zero:
  "self_mode s = ''build'' \<Longrightarrow> result call = Returns \<Longrightarrow>
     self_start call s = self_exit 0 (deliver (emitted call) s)
   \<and> self_exit_status (self_start call s) = Some 0
   \<and> self_exit_status (emit ev now s') = self_exit_status s'
   \<and> self_exit_status (snd (self_on_compiler_finished P now s')) = self_exit_status s'"
  by (simp add: self_start_def Let_def self_exit_def self_on_compiler_finished_def self_print_def
      deliver_mode emit_exit_status split: option.splits)

theorem build_completion_exits_zero_witness:
  "self_exit_status
     (self_start \<lparr>emitted = [(Starting, 1), (Output (str ''x''), 2), (Finished, 3)], result = Returns\<rparr>
        (build_app posix_process)) = Some 0
   \<and> self_reactor
     (self_start \<lparr>emitted = [(Starting, 1), (Output (str ''x''), 2), (Finished, 3)], result = Returns\<rparr>
        (build_app posix_process)) = [Compiler_output (str ''x''), Compiler_finished]
   \<and> self_exit_status (emit Finished 3 (build_app posix_process)) = None
   \<and> self_exit_status (snd (self_on_compiler_finished example_platform 3 (build_app posix_process))) = None"
proof -
  have h1: "self_mode (build_app posix_process) = ''build''"
    by (simp add: build_app_def example_defs)
  have h2: "result \<lparr>emitted = [(Starting, 1), (Output (str ''x''), 2), (Finished, 3)], result = Returns\<rparr>
              = Returns"
    by simp
  from build_completion_exits_zero [OF h1 h2, of Finished 3 "build_app posix_process" example_platform]
  show ?thesis
    by (simp add: deliver_def handler_defs self_exit_def Let_def build_app_def example_defs)
qed

text \<open>
  C7.  With a file destination configured, handling "output" opens the file for writing
  as UTF-8 text with every \<open>\n\<close> written as \<open>\n\<close>, writes the whole bundle and closes the
  file in one scoped operation: however the handler ends, also when the write raises, no
  handle stays open; when nothing fails the file holds exactly the UTF-8 encoding of the
  bundle, whatever \<open>os.linesep\<close> is.
\<close>

theorem output_file_scoped_write:
  assumes "self_output s = Some path"
  shows "open_files (snd (self_on_compiler_output P bundle s)) = open_files s
     \<and> (faults s path = NoFault \<longrightarrow> encode ''utf-8'' bundle = Inr bs \<longrightarrow>
          self_on_compiler_output P bundle s = (None, s\<lparr>files := (files s)(path \<mapsto> bs)\<rparr>))"
  using assms
  by (auto simp: self_on_compiler_output_def write_output_file_cases fatal_defs
      split: file_fault.splits sum.splits)

text \<open>A write that fails on a full disk, and a write that succeeds on Windows.\<close>

theorem output_file_scoped_write_witness:
  "open_files (snd (self_on_compiler_output example_platform (str ''x'') (build_to_file full_disk))) = []
   \<and> open_files (build_to_file full_disk) = []
   \<and> self_on_compiler_output example_platform [0x61, 0x0A, 0xE9] (build_to_file windows_process) =
       (None, build_to_file windows_process\<lparr>files := [''out.js'' \<mapsto> [0x61, 0x0A, 0xC3, 0xA9]]\<rparr>)"
proof -
  have h1: "self_output (build_to_file full_disk) = Some ''out.js''"
    by (simp add: build_to_file_def full_disk_def example_defs)
  have h2: "self_output (build_to_file windows_process) = Some ''out.js''"
    by (simp add: build_to_file_def windows_process_def example_defs)
  have h3: "faults (build_to_file windows_process) ''out.js'' = NoFault"
    by (simp add: build_to_file_def windows_process_def example_defs)
  have h4: "encode ''utf-8'' [0x61, 0x0A, 0xE9] = Inr [0x61, 0x0A, 0xC3, 0xA9]"
    by (simp add: encode_defs)
  from output_file_scoped_write [OF h1, of example_platform "str ''x''"]
    output_file_scoped_write [OF h2, of example_platform "[0x61, 0x0A, 0xE9]" "[0x61, 0x0A, 0xC3, 0xA9]"]
    h3 h4
  show ?thesis
    by (simp add: build_to_file_def full_disk_def windows_process_def example_defs)
qed

text \<open>
  C8.  The handler of "diagnostics" formats each record against the current working
  directory and prints the results in the order of the input; it changes nothing else:
  not the requested exit code, not the timing state, not the reactor's queue.
\<close>

theorem diagnostics_printed_in_order:
  "self_on_compiler_diagnostics P ds s =
     s\<lparr>stdout := stdout s @ map (\<lambda>d. Printed (format_diagnostic P d (cwd s))) ds\<rparr>
   \<and> self_exit_status (self_on_compiler_diagnostics P ds s) = self_exit_status s
   \<and> self_compilation_started (self_on_compiler_diagnostics P ds s) = self_compilation_started s
   \<and> self_reactor (self_on_compiler_diagnostics P ds s) = self_reactor s
   \<and> watching (self_on_compiler_diagnostics P ds s) = watching s"
  by (simp add: diagnostics_eq)

theorem diagnostics_printed_in_order_witness:
  "stdout (self_on_compiler_diagnostics example_platform
       [\<lparr>category = ''error'', message = ''first'', location = None\<rparr>,
        \<lparr>category = ''warning'', message = ''second'', location = Some (''/work/app.ts'', 1, 2)\<rparr>]
       (build_app posix_process))
     = [Printed ''/work: error: first'', Printed ''/work: warning: second'']
   \<and> self_exit_status (self_on_compiler_diagnostics example_platform
       [\<lparr>category = ''error'', message = ''first'', location = None\<rparr>,
        \<lparr>category = ''warning'', message = ''second'', location = Some (''/work/app.ts'', 1, 2)\<rparr>]
       (build_app posix_process)) = None"
  using diagnostics_printed_in_order [of example_platform
       "[\<lparr>category = ''error'', message = ''first'', location = None\<rparr>,
         \<lparr>category = ''warning'', message = ''second'', location = Some (''/work/app.ts'', 1, 2)\<rparr>]"
       "build_app posix_process"]
  by (simp add: build_app_def example_defs)

text \<open>
  C9.  In every run in which the engine has emitted "starting", the start timestamp is
  recorded from then on: the handler of "finished" raises nothing and, however the run
  goes on, no step fails the assertion.  When verbose reporting is off the handler does
  nothing and reads no timing state.
\<close>

theorem finished_assertion_holds:
  "(exec P acts s = (None, s') \<longrightarrow> Emit Starting t \<in> set acts \<longrightarrow>
      self_compilation_started s' \<noteq> None
      \<and> fst (self_on_compiler_finished P now s') = None
      \<and> fst (exec P later s') \<noteq> Some AssertionError)
   \<and> (\<not> self_verbose s \<longrightarrow>
        self_on_compiler_finished P now (s\<lparr>self_compilation_started := x\<rparr>) =
          (None, s\<lparr>self_compilation_started := x\<rparr>))"
  using started_after_starting [of P acts s s' t] exec_no_assertion [of s' P later]
  by (auto simp: self_on_compiler_finished_def split: option.splits)

text \<open>
  A watch session: "starting", its message, "finished", then the report; and a build that
  is not verbose and has seen no "starting".
\<close>

theorem finished_assertion_holds_witness:
  "exec example_platform [Emit Starting 1, Run 1, Emit Finished 2] (watch_app posix_process) =
     (None, watch_app posix_process
        \<lparr>self_compilation_started := Some 1, self_reactor := [Compiler_finished],
         stdout := [Written [0x1B, 0x63], Printed ''Compiling /work/app.ts'']\<rparr>)
   \<and> fst (self_on_compiler_finished example_platform 3
        (watch_app posix_process
          \<lparr>self_compilation_started := Some 1, self_reactor := [Compiler_finished],
           stdout := [Written [0x1B, 0x63], Printed ''Compiling /work/app.ts'']\<rparr>)) = None
   \<and> fst (exec example_platform [Run 3]
        (watch_app posix_process
          \<lparr>self_compilation_started := Some 1, self_reactor := [Compiler_finished],
           stdout := [Written [0x1B, 0x63], Printed ''Compiling /work/app.ts'']\<rparr>))
       \<noteq> Some AssertionError
   \<and> self_on_compiler_finished example_platform 3 (build_app posix_process) =
       (None, build_app posix_process)"
proof -
  have h1: "exec example_platform [Emit Starting 1, Run 1, Emit Finished 2] (watch_app posix_process) =
     (None, watch_app posix_process
        \<lparr>self_compilation_started := Some 1, self_reactor := [Compiler_finished],
         stdout := [Written [0x1B, 0x63], Printed ''Compiling /work/app.ts'']\<rparr>)"
    by (simp add: handler_defs self_print_compiler_starting_def self_print_def stdout_write_def
        stdout_encode_def encode_char_handled_def encode_defs Let_def watch_app_def example_defs)
  have h2: "Emit Starting 1 \<in> set [Emit Starting 1, Run 1, Emit Finished 2]"
    by simp
  have h3: "\<not> self_verbose (build_app posix_process)"
    by (simp add: build_app_def example_defs)
  have h4: "build_app posix_process\<lparr>self_compilation_started := None\<rparr> = build_app posix_process"
    by (simp add: build_app_def example_defs)
  let ?s' = "watch_app posix_process
        \<lparr>self_compilation_started := Some 1, self_reactor := [Compiler_finished],
         stdout := [Written [0x1B, 0x63], Printed ''Compiling /work/app.ts'']\<rparr>"
  from finished_assertion_holds [of example_platform "[Emit Starting 1, Run 1, Emit Finished 2]"
      "watch_app posix_process" ?s' 1 3 "[Run 3]" None] h1 h2
  have a: "fst (self_on_compiler_finished example_platform 3 ?s') = None
      \<and> fst (exec example_platform [Run 3] ?s') \<noteq> Some AssertionError"
    by blast
  from finished_assertion_holds [of example_platform "[]" "build_app posix_process"
      "build_app posix_process" 1 3 "[]" None] h3
  have b: "self_on_compiler_finished example_platform 3
             (build_app posix_process\<lparr>self_compilation_started := None\<rparr>) =
           (None, build_app posix_process\<lparr>self_compilation_started := None\<rparr>)"
    by blast
  from h1 a b [unfolded h4] show ?thesis
    by blast
qed

text \<open>
  C10.  With a file destination configured, opening the file truncates it before any
  byte of the bundle is written.  When the write then fails, the file holds only the
  bytes that got through (none, when the bundle cannot be encoded): its previous
  contents are gone and are not put back.
\<close>

theorem output_file_truncated_before_write:
  assumes "self_output s = Some path" and "\<forall>e. faults s path \<noteq> OpenFault e"
  shows "files (snd (open_w path ''utf-8'' (Some LF) s)) path = Some []
     \<and> (\<forall>n e bs. faults s path = WriteFault n e \<longrightarrow> encode ''utf-8'' bundle = Inr bs \<longrightarrow>
          files (snd (self_on_compiler_output P bundle s)) path = Some (take n bs))
     \<and> (\<forall>e. encode ''utf-8'' bundle = Inl e \<longrightarrow>
          files (snd (self_on_compiler_output P bundle s)) path = Some [])"
  using assms
  by (auto simp: self_on_compiler_output_def write_output_file_cases open_w_def fatal_defs Let_def
      split: file_fault.splits sum.splits)

text \<open>\<open>out.js\<close> holds three bytes; the disk is full; afterwards \<open>out.js\<close> is empty.\<close>

theorem output_file_truncated_before_write_witness:
  "files (build_to_file full_disk) ''out.js'' = Some [1, 2, 3]
   \<and> files (snd (self_on_compiler_output example_platform (str ''x'') (build_to_file full_disk))) ''out.js''
       = Some []
   \<and> self_exit_status (snd (self_on_compiler_output example_platform (str ''x'') (build_to_file full_disk)))
       = Some 1"
proof -
  have h1: "self_output (build_to_file full_disk) = Some ''out.js''"
    by (simp add: build_to_file_def full_disk_def example_defs)
  have h2: "\<forall>e. faults (build_to_file full_disk) ''out.js'' \<noteq> OpenFault e"
    by (simp add: build_to_file_def full_disk_def example_defs)
  have h3: "faults (build_to_file full_disk) ''out.js'' = WriteFault 0 (OSError ''No space left on device'')"
    by (simp add: build_to_file_def full_disk_def example_defs)
  have h4: "encode ''utf-8'' (str ''x'') = Inr [0x78]"
    by (simp add: encode_defs)
  have h5: "self_exit_status (snd (self_on_compiler_output example_platform (str ''x'') (build_to_file full_disk)))
       = Some 1"
    by (simp add: self_on_compiler_output_def write_output_file_cases fatal_defs encode_defs
        build_to_file_def full_disk_def example_defs)
  from output_file_truncated_before_write [OF h1 h2, of "str ''x''" example_platform] h3 h4 h5
  show ?thesis
    by (simp add: build_to_file_def full_disk_def example_defs)
qed

end
